theory Spec2Isabelle
  imports Main "HOL-Library.Word"
begin

unbundle bit_operations_syntax

section \<open>The file cache of fusedav (src/ldb-filecache.c)\<close>

text \<open>
  The cache sits between a WebDAV server and the FUSE callbacks. Everything it does is a
  call to the outside: the local file system, the key/value store (leveldb), the HTTP
  client (neon) and the attribute cache. The embedding makes these explicit:
  \<^item> the state of the outside that the code can observe is a record \<open>world\<close>, passed
    through every function and returned updated;
  \<^item> what the outside decides on its own during one call (whether a session is available,
    what the server answers, whether the store reports an error) is a record \<open>env\<close>;
  \<^item> every external call appends an \<open>event\<close> to the trace of the world, in program
    order, so that "no request is issued" and "A happens before B" are statements about
    the trace;
  \<^item> a dereference of a null pointer and a failed \<open>assert\<close> are values of type
    \<open>fault\<close>; the retry loop of the resolver runs on a finite script of server answers and
    returns \<open>None\<close> when the script is used up before the loop ends.
  Calls to \<open>log_print\<close> have no effect on the control flow and are left out.
\<close>

subsection \<open>Constants of the platform and of the source\<close>

text \<open>\<open>#define REFRESH_INTERVAL 3\<close> and \<open>#define ETAG_MAX 256\<close> (lines 41 and 55).\<close>

definition REFRESH_INTERVAL :: int where
  "REFRESH_INTERVAL = 3"

definition ETAG_MAX :: nat where
  "ETAG_MAX = 256"

text \<open>
  The remaining constants come from the C library and from neon, with their values on
  Linux: \<open>PATH_MAX\<close> (limits.h), the access modes of \<open>open\<close> (fcntl.h), the error
  numbers (errno.h), the file type bit of a regular file (sys/stat.h, octal 0100000) and
  neon's \<open>NE_OK\<close> and \<open>NE_RETRY\<close> (ne_session.h).
\<close>

definition PATH_MAX :: nat where
  "PATH_MAX = 4096"

definition O_RDONLY :: "32 word" where
  "O_RDONLY = 0"

definition O_WRONLY :: "32 word" where
  "O_WRONLY = 1"

definition O_RDWR :: "32 word" where
  "O_RDWR = 2"

definition ENOENT :: int where
  "ENOENT = 2"

definition EIO :: int where
  "EIO = 5"

definition EBADF :: int where
  "EBADF = 9"

definition EEXIST :: int where
  "EEXIST = 17"

definition EINVAL :: int where
  "EINVAL = 22"

definition EMFILE :: int where
  "EMFILE = 24"

definition S_IFREG :: nat where
  "S_IFREG = 32768"

definition NE_OK :: int where
  "NE_OK = 0"

definition NE_RETRY :: int where
  "NE_RETRY = 8"

subsection \<open>Data\<close>

text \<open>\<open>struct ldb_filecache_sdata\<close> (lines 46-52): the session data behind a file handle.\<close>

record ldb_filecache_sdata =
  fd :: int
  filename :: string
  readable :: bool
  writable :: bool
  modified :: bool

text \<open>
  \<open>struct ldb_filecache_pdata\<close> (lines 58-62): the entry kept in leveldb. The field
  \<open>filename\<close> of the source is \<open>pd_filename\<close> here, since the session data has a field
  of the same name. \<open>time_t\<close> is a signed integer of 64 bits: a \<open>64 word\<close>, whose
  arithmetic wraps around and which \<open>sint\<close> reads as the signed value.
\<close>

record ldb_filecache_pdata =
  pd_filename :: string
  etag :: string
  last_server_update :: "64 word"

text \<open>
  The fields of \<open>struct stat_cache_value\<close> that the cache fills in (lines 212-222 and
  477-487); the structure itself is declared in statcache.h.
\<close>

record stat_cache_value =
  st_mode :: nat
  st_nlink :: nat
  st_size :: int
  st_atime :: "64 word"
  st_mtime :: "64 word"
  st_ctime :: "64 word"
  st_blksize :: int
  st_blocks :: int
  st_uid :: nat
  st_gid :: nat
  prepopulated :: bool

text \<open>
  The two fields of \<open>struct fuse_file_info\<close> that the cache uses: the flags of the
  \<open>open\<close> call and the handle \<open>fh\<close>, a pointer to the session data (\<open>None\<close> is NULL).
\<close>

record fuse_file_info =
  flags :: "32 word"
  fh :: "ldb_filecache_sdata option"

datatype fault = NullDeref | AssertFailed

text \<open>The external calls, as they appear in the trace.\<close>

datatype event =
    SessionGet
  | LdbGet string
  | LdbPut string ldb_filecache_pdata
  | Open string int
  | Mkstemp string string int
  | Unlink string
  | Close int
  | Lseek int int
  | Pwrite int string int int
  | RequestCreate string
  | AddRequestHeader string string
  | BeginRequest
  | DiscardResponse
  | ReadResponseToFd int
  | EndRequest
  | RequestDestroy
  | NePut string int string
  | StatCacheSet string stat_cache_value

text \<open>
  The world: the clock (a \<open>time_t\<close>), the directory (file name to inode), the content of
  every inode,
  the table of open descriptors (descriptor to inode and whether it is open for writing)
  with the limit on their number, the leveldb store, the attribute cache, \<open>errno\<close> and
  the trace.
\<close>

record world =
  clock :: "64 word"
  dir :: "string \<rightharpoonup> nat"
  idata :: "nat \<Rightarrow> string"
  next_inode :: nat
  fdtab :: "int \<rightharpoonup> nat \<times> bool"
  nofile :: nat
  store :: "string \<rightharpoonup> ldb_filecache_pdata"
  statcache :: "string \<rightharpoonup> stat_cache_value"
  errno :: int
  trace :: "event list"

text \<open>
  One answer of the server to \<open>ne_begin_request\<close>: the status code, the ETag header if
  there is one, the body, how many bytes of the body arrive before the connection breaks
  (the whole body when this is at least its length), and what \<open>ne_end_request\<close>
  returns.
\<close>

record response =
  code :: int
  etag_header :: "string option"
  body :: string
  delivered :: nat
  end_status :: int

datatype attempt = BeginFailed | Answered response

text \<open>What the outside decides during one call of the cache.\<close>

record env =
  session_ok :: bool
  malloc_sdata_ok :: bool
  malloc_pdata_ok :: bool
  get_error :: "string option"
  put_error :: "string option"
  request_ok :: bool
  attempts :: "attempt list"
  mkstemp_suffix :: string
  mkstemp_errno :: "int option"
  pwrite_errno :: "int option"
  ne_put_ok :: bool
  uid :: nat
  gid :: nat

subsection \<open>The outside: clock, file system, leveldb, neon, attribute cache\<close>

definition emit :: "event \<Rightarrow> world \<Rightarrow> world" where
  "emit ev w = w\<lparr>trace := trace w @ [ev]\<rparr>"

text \<open>\<open>time(NULL)\<close>.\<close>

definition time_now :: "world \<Rightarrow> 64 word" where
  "time_now w = clock w"

text \<open>A new descriptor is the lowest number that is not open, below the limit.\<close>

definition lowest_free_fd :: "world \<Rightarrow> int option" where
  "lowest_free_fd w = find (\<lambda>n. fdtab w n = None) (map int [0..<nofile w])"

text \<open>
  \<open>open(name, O_APPEND)\<close>: no access mode is given, so the descriptor is read-only. The
  call fails with -1 when the name is not in the directory or no descriptor is free.
\<close>

definition sys_open :: "world \<Rightarrow> string \<Rightarrow> int \<times> world" where
  "sys_open w name =
     (case dir w name of
        None \<Rightarrow> (- 1, emit (Open name (- 1)) (w\<lparr>errno := ENOENT\<rparr>))
      | Some i \<Rightarrow>
          (case lowest_free_fd w of
             None \<Rightarrow> (- 1, emit (Open name (- 1)) (w\<lparr>errno := EMFILE\<rparr>))
           | Some n \<Rightarrow> (n, emit (Open name n) (w\<lparr>fdtab := (fdtab w)(n \<mapsto> (i, False))\<rparr>))))"

text \<open>
  \<open>mkstemp(template)\<close>: the template must end in six X, or the call fails with
  \<open>EINVAL\<close> and leaves the buffer alone. Otherwise the six X are replaced in the buffer
  by a suffix that the library chooses (\<open>mkstemp_suffix\<close>), and the file of that name is
  created empty and opened for reading and writing. The creation fails with the error the
  environment injects (\<open>mkstemp_errno\<close>), when the name exists, and when no descriptor is
  free; the buffer then holds the name that was tried. The result is the descriptor (-1
  on failure), the content of the buffer afterwards, and the new world.
\<close>

definition sys_mkstemp :: "env \<Rightarrow> world \<Rightarrow> string \<Rightarrow> int \<times> string \<times> world" where
  "sys_mkstemp e w template =
     (if take 6 (rev template) \<noteq> ''XXXXXX''
      then (- 1, template, emit (Mkstemp template template (- 1)) (w\<lparr>errno := EINVAL\<rparr>))
      else
        (let name = take (length template - 6) template @ mkstemp_suffix e in
         case mkstemp_errno e of
           Some err \<Rightarrow> (- 1, name, emit (Mkstemp template name (- 1)) (w\<lparr>errno := err\<rparr>))
         | None \<Rightarrow>
             if dir w name \<noteq> None
             then (- 1, name, emit (Mkstemp template name (- 1)) (w\<lparr>errno := EEXIST\<rparr>))
             else
               (case lowest_free_fd w of
                  None \<Rightarrow> (- 1, name, emit (Mkstemp template name (- 1)) (w\<lparr>errno := EMFILE\<rparr>))
                | Some n \<Rightarrow>
                    (n, name,
                     emit (Mkstemp template name n)
                       (w\<lparr>dir := (dir w)(name \<mapsto> next_inode w),
                          idata := (idata w)(next_inode w := []),
                          next_inode := Suc (next_inode w),
                          fdtab := (fdtab w)(n \<mapsto> (next_inode w, True))\<rparr>)))))"

text \<open>\<open>close(fd)\<close> and \<open>unlink(name)\<close>; the cache ignores what they return.\<close>

definition sys_close :: "world \<Rightarrow> int \<Rightarrow> world" where
  "sys_close w d =
     (case fdtab w d of
        None \<Rightarrow> emit (Close d) (w\<lparr>errno := EBADF\<rparr>)
      | Some _ \<Rightarrow> emit (Close d) (w\<lparr>fdtab := (fdtab w)(d := None)\<rparr>))"

definition sys_unlink :: "world \<Rightarrow> string \<Rightarrow> world" where
  "sys_unlink w name =
     (case dir w name of
        None \<Rightarrow> emit (Unlink name) (w\<lparr>errno := ENOENT\<rparr>)
      | Some _ \<Rightarrow> emit (Unlink name) (w\<lparr>dir := (dir w)(name := None)\<rparr>))"

text \<open>
  \<open>lseek(fd, 0, SEEK_SET)\<close> and \<open>lseek(fd, 0, SEEK_END)\<close>: -1 on a descriptor that is
  not open, otherwise the new offset, which is 0 and the size of the file.
\<close>

definition lseek_set :: "world \<Rightarrow> int \<Rightarrow> int \<times> world" where
  "lseek_set w d =
     (case fdtab w d of
        None \<Rightarrow> (- 1, emit (Lseek d (- 1)) (w\<lparr>errno := EBADF\<rparr>))
      | Some _ \<Rightarrow> (0, emit (Lseek d 0) w))"

definition lseek_end :: "world \<Rightarrow> int \<Rightarrow> int \<times> world" where
  "lseek_end w d =
     (case fdtab w d of
        None \<Rightarrow> (- 1, emit (Lseek d (- 1)) (w\<lparr>errno := EBADF\<rparr>))
      | Some (i, _) \<Rightarrow> (int (length (idata w i)), emit (Lseek d (int (length (idata w i)))) w))"

text \<open>
  \<open>pwrite(fd, buf, size, offset)\<close>, with \<open>size\<close> the length of \<open>buf\<close>: it fails with
  \<open>EINVAL\<close> on a negative offset, with \<open>EBADF\<close> on a descriptor that is not open for
  writing, and with the error the environment injects; otherwise the bytes replace the
  content from the offset on, after padding a shorter file with zero bytes.
\<close>

definition write_at :: "string \<Rightarrow> nat \<Rightarrow> string \<Rightarrow> string" where
  "write_at old off buf =
     take off (old @ replicate (off - length old) (CHR 0x00)) @ buf @ drop (off + length buf) old"

definition sys_pwrite :: "env \<Rightarrow> world \<Rightarrow> int \<Rightarrow> string \<Rightarrow> int \<Rightarrow> int \<times> world" where
  "sys_pwrite e w d buf off =
     (if off < 0 then (- 1, emit (Pwrite d buf off (- 1)) (w\<lparr>errno := EINVAL\<rparr>))
      else
        (case fdtab w d of
           None \<Rightarrow> (- 1, emit (Pwrite d buf off (- 1)) (w\<lparr>errno := EBADF\<rparr>))
         | Some (i, wr) \<Rightarrow>
             if \<not> wr then (- 1, emit (Pwrite d buf off (- 1)) (w\<lparr>errno := EBADF\<rparr>))
             else
               (case pwrite_errno e of
                  Some err \<Rightarrow> (- 1, emit (Pwrite d buf off (- 1)) (w\<lparr>errno := err\<rparr>))
                | None \<Rightarrow>
                    (int (length buf),
                     emit (Pwrite d buf off (int (length buf)))
                       (w\<lparr>idata := (idata w)(i := write_at (idata w i) (nat off) buf)\<rparr>)))))"

text \<open>
  \<open>leveldb_get\<close> and \<open>leveldb_put\<close>: the value found (NULL when the key is absent or
  the call fails) and the error string, which is NULL unless the store reports an error.
\<close>

definition leveldb_get ::
  "env \<Rightarrow> world \<Rightarrow> string \<Rightarrow> ldb_filecache_pdata option \<times> string option \<times> world" where
  "leveldb_get e w key =
     (case get_error e of
        Some msg \<Rightarrow> (None, Some msg, emit (LdbGet key) w)
      | None \<Rightarrow> (store w key, None, emit (LdbGet key) w))"

definition leveldb_put ::
  "env \<Rightarrow> world \<Rightarrow> string \<Rightarrow> ldb_filecache_pdata \<Rightarrow> string option \<times> world" where
  "leveldb_put e w key v =
     (case put_error e of
        Some msg \<Rightarrow> (Some msg, emit (LdbPut key v) w)
      | None \<Rightarrow> (None, emit (LdbPut key v) (w\<lparr>store := (store w)(key \<mapsto> v)\<rparr>)))"

text \<open>
  \<open>ne_read_response_to_fd(req, fd)\<close> writes the part of the body that arrives into the
  file behind the descriptor; nothing is written through a descriptor that is not open for
  writing. \<open>ne_put(session, path, fd)\<close> sends the content of the file and returns 0 on
  success.
\<close>

definition ne_read_response_to_fd :: "world \<Rightarrow> response \<Rightarrow> int \<Rightarrow> world" where
  "ne_read_response_to_fd w r d =
     (case fdtab w d of
        None \<Rightarrow> emit (ReadResponseToFd d) w
      | Some (i, wr) \<Rightarrow>
          if wr
          then emit (ReadResponseToFd d)
                 (w\<lparr>idata := (idata w)(i := write_at (idata w i) 0 (take (delivered r) (body r)))\<rparr>)
          else emit (ReadResponseToFd d) w)"

definition ne_put :: "env \<Rightarrow> world \<Rightarrow> string \<Rightarrow> int \<Rightarrow> int \<times> world" where
  "ne_put e w path d =
     (case fdtab w d of
        None \<Rightarrow> (1, emit (NePut path d []) w)
      | Some (i, _) \<Rightarrow> (if ne_put_ok e then 0 else 1, emit (NePut path d (idata w i)) w))"

text \<open>
  Modelled from the spec: \<open>stat_cache_value_set\<close> is defined in statcache.c. The spec
  describes the attribute cache as write-only for the file cache: \<open>set(path,
  synthetic_attributes)\<close> records the attributes under the path.
\<close>

definition stat_cache_value_set :: "world \<Rightarrow> string \<Rightarrow> stat_cache_value \<Rightarrow> world" where
  "stat_cache_value_set w path v =
     emit (StatCacheSet path v) (w\<lparr>statcache := (statcache w)(path \<mapsto> v)\<rparr>)"

text \<open>
  Modelled from the spec: \<open>session_get\<close> is defined in fusedav.c. The spec only says
  that a session may fail to be obtained; the environment decides.
\<close>

definition session_get :: "env \<Rightarrow> world \<Rightarrow> bool \<times> world" where
  "session_get e w = (session_ok e, emit SessionGet w)"

subsection \<open>The metadata store adapter (lines 276-308, 339-371, 522-526)\<close>

definition path2key :: "string \<Rightarrow> string" where
  "path2key path = ''fc:'' @ path"

text \<open>
  \<open>ldb_filecache_pdata_get\<close> returns NULL when leveldb reports an error and when the key
  is absent; the check of the length of the value only writes a log line.
\<close>

definition ldb_filecache_pdata_get ::
  "env \<Rightarrow> world \<Rightarrow> string \<Rightarrow> ldb_filecache_pdata option \<times> world" where
  "ldb_filecache_pdata_get e w path =
     (let key = path2key path;
          (pdata, errptr, w1) = leveldb_get e w key
      in if errptr \<noteq> None then (None, w1)
         else if pdata = None then (None, w1)
         else (pdata, w1))"

definition ldb_filecache_pdata_set ::
  "env \<Rightarrow> world \<Rightarrow> string \<Rightarrow> ldb_filecache_pdata option \<Rightarrow> int \<times> world" where
  "ldb_filecache_pdata_set e w path pdata =
     (case pdata of
        None \<Rightarrow> (- 1, w)
      | Some pd \<Rightarrow>
          (let key = path2key path;
               (errptr, w1) = leveldb_put e w key pd
           in if errptr \<noteq> None then (- 1, w1) else (0, w1)))"

subsection \<open>The staging area (lines 69-79)\<close>

text \<open>
  \<open>new_cache_file\<close> returns its result, the content of \<open>cache_file_path\<close>, the
  descriptor stored through \<open>fd\<close>, and the world. \<open>snprintf\<close> cuts the pattern to
  \<open>PATH_MAX - 1\<close> characters.
\<close>

definition new_cache_file :: "env \<Rightarrow> world \<Rightarrow> string \<Rightarrow> int \<times> string \<times> int \<times> world" where
  "new_cache_file e w cache_path =
     (let pattern = take (PATH_MAX - 1) (cache_path @ ''/files/fusedav-cache-XXXXXX'');
          (d, cache_file_path, w1) = sys_mkstemp e w pattern
      in if d < 0 then (- 1, cache_file_path, d, w1) else (0, cache_file_path, d, w1))"

subsection \<open>The freshness resolver (lines 82-182)\<close>

text \<open>
  The branch for status 200 (lines 136-171). With no entry, one is allocated and zeroed
  and the ETag header is copied into it with \<open>strncpy\<close>, which reads through the header
  pointer; with an entry, its file name is kept as the old one to unlink and nothing else
  of the entry is touched before the new file is made. The results of
  \<open>new_cache_file\<close>, \<open>ne_read_response_to_fd\<close>, \<open>ldb_filecache_pdata_set\<close> and
  \<open>unlink\<close> are not looked at.
\<close>

definition full_content ::
  "env \<Rightarrow> world \<Rightarrow> string \<Rightarrow> string \<Rightarrow> ldb_filecache_pdata option \<Rightarrow> response
     \<Rightarrow> fault + int \<times> world" where
  "full_content e w cache_path path pdata r =
     (case
        (case pdata of
           None \<Rightarrow>
             if \<not> malloc_pdata_ok e then Inl NullDeref
             else
               (case etag_header r of
                  None \<Rightarrow> Inl NullDeref
                | Some t \<Rightarrow>
                    Inr (\<lparr>pd_filename = [], etag = take ETAG_MAX t, last_server_update = 0\<rparr>,
                         None))
         | Some pd \<Rightarrow> Inr (pd, Some (pd_filename pd)))
      of
        Inl f \<Rightarrow> Inl f
      | Inr (pd, unlink_old) \<Rightarrow>
          (let (x, name, ret_fd, w1) = new_cache_file e w cache_path;
               w2 = ne_read_response_to_fd w1 r ret_fd;
               pd1 = pd\<lparr>pd_filename := name, last_server_update := time_now w2\<rparr>;
               (y, w3) = ldb_filecache_pdata_set e w2 path (Some pd1);
               w4 = (case unlink_old of
                       None \<Rightarrow> w3
                     | Some old_filename \<Rightarrow> sys_unlink w3 old_filename)
           in Inr (ret_fd, w4)))"

text \<open>
  The branch for status 304 (lines 122-135): the entry is stamped with the current time,
  stored, and its file is opened. Without an entry the stamp writes through NULL.
\<close>

definition not_modified ::
  "env \<Rightarrow> world \<Rightarrow> string \<Rightarrow> ldb_filecache_pdata option \<Rightarrow> fault + int \<times> world" where
  "not_modified e w path pdata =
     (let w1 = emit DiscardResponse w in
      case pdata of
        None \<Rightarrow> Inl NullDeref
      | Some pd \<Rightarrow>
          (let pd1 = pd\<lparr>last_server_update := time_now w1\<rparr>;
               (y, w2) = ldb_filecache_pdata_set e w1 path (Some pd1)
           in Inr (sys_open w2 (pd_filename pd1))))"

text \<open>
  The loop of lines 115-174, on the script of answers. A failed \<open>ne_begin_request\<close>
  ends it with descriptor -1; 304 and 200 end it; any other status ends it unless
  \<open>ne_end_request\<close> returns \<open>NE_RETRY\<close>.
\<close>

fun request_loop ::
  "env \<Rightarrow> string \<Rightarrow> string \<Rightarrow> ldb_filecache_pdata option \<Rightarrow> attempt list \<Rightarrow> world
     \<Rightarrow> (fault + int \<times> world) option" where
  "request_loop e cache_path path pdata [] w = None"
| "request_loop e cache_path path pdata (a # rest) w =
     (let w1 = emit BeginRequest w in
      case a of
        BeginFailed \<Rightarrow> Some (Inr (- 1, w1))
      | Answered r \<Rightarrow>
          if code r = 304 then Some (not_modified e w1 path pdata)
          else if code r = 200 then Some (full_content e w1 cache_path path pdata r)
          else
            (let w2 = emit EndRequest w1 in
             if end_status r = NE_RETRY then request_loop e cache_path path pdata rest w2
             else Some (Inr (- 1, w2))))"

text \<open>
  Lines 105-181: create the request, add the validator of a stale entry, run the loop,
  destroy the request.
\<close>

definition conditional_get ::
  "env \<Rightarrow> world \<Rightarrow> string \<Rightarrow> string \<Rightarrow> ldb_filecache_pdata option
     \<Rightarrow> (fault + int \<times> world) option" where
  "conditional_get e w cache_path path pdata =
     (let w1 = emit (RequestCreate path) w in
      if \<not> request_ok e then Some (Inr (- 1, w1))
      else
        (let w2 = (case pdata of
                     None \<Rightarrow> w1
                   | Some pd \<Rightarrow> emit (AddRequestHeader ''If-None-Match'' (etag pd)) w1)
         in case request_loop e cache_path path pdata (attempts e) w2 of
              None \<Rightarrow> None
            | Some (Inl f) \<Rightarrow> Some (Inl f)
            | Some (Inr (ret_fd, w3)) \<Rightarrow> Some (Inr (ret_fd, emit RequestDestroy w3))))"

text \<open>
  The test of line 96 subtracts two \<open>time_t\<close> values, on 64 bits, and compares the
  signed difference with \<open>REFRESH_INTERVAL\<close>.
\<close>

definition ldb_get_fresh_fd ::
  "env \<Rightarrow> world \<Rightarrow> string \<Rightarrow> string \<Rightarrow> (fault + int \<times> world) option" where
  "ldb_get_fresh_fd e w cache_path path =
     (let (pdata, w1) = ldb_filecache_pdata_get e w path in
      case pdata of
        None \<Rightarrow> conditional_get e w1 cache_path path pdata
      | Some pd \<Rightarrow>
          if sint (time_now w1 - last_server_update pd) \<le> REFRESH_INTERVAL
          then Some (Inr (sys_open w1 (pd_filename pd)))
          else conditional_get e w1 cache_path path pdata)"

subsection \<open>The session handle (lines 184-250, 311-337, 384-498, 528-534)\<close>

text \<open>
  The attributes that \<open>ldb_filecache_open\<close> (lines 212-222) and \<open>ldb_filecache_sync\<close>
  (lines 477-487) publish differ in the size only: mode \<open>0660 | S_IFREG\<close>, one link, the
  three times equal to \<open>time(NULL)\<close>, block size 0, 8 blocks, the user and group of the
  process, not prepopulated.
\<close>

definition synthetic_attributes :: "env \<Rightarrow> world \<Rightarrow> int \<Rightarrow> stat_cache_value" where
  "synthetic_attributes e w size_of_file =
     \<lparr>st_mode = 432 OR S_IFREG, st_nlink = 1, st_size = size_of_file,
      st_atime = time_now w, st_mtime = time_now w, st_ctime = time_now w,
      st_blksize = 0, st_blocks = 8, st_uid = uid e, st_gid = gid e, prepopulated = False\<rparr>"

text \<open>
  What \<open>ldb_filecache_open\<close> hands to \<open>free\<close> on its way out: nothing, the session data
  it allocated, or the variable \<open>sdata\<close> before anything was assigned to it (the jump to
  \<open>fail\<close> after \<open>session_get\<close> failed).
\<close>

datatype freed = NotFreed | FreedSdata | FreedUninitialised

text \<open>An integer used as a condition in C is true when it is not zero.\<close>

definition nonzero :: "32 word \<Rightarrow> bool" where
  "nonzero x = (x \<noteq> 0)"

text \<open>
  Lines 231-249: the access flags, the test of the descriptor, and the two exits. The
  result is the return value, the file info, what was freed, and the world.
\<close>

definition open_finish ::
  "world \<Rightarrow> fuse_file_info \<Rightarrow> ldb_filecache_sdata \<Rightarrow> int \<times> fuse_file_info \<times> freed \<times> world" where
  "open_finish w info sdata =
     (let sdata1 = (if nonzero (flags info AND O_RDONLY) \<or> nonzero (flags info AND O_RDWR)
                    then sdata\<lparr>readable := True\<rparr> else sdata);
          sdata2 = (if nonzero (flags info AND O_WRONLY) \<or> nonzero (flags info AND O_RDWR)
                    then sdata1\<lparr>writable := True\<rparr> else sdata1)
      in if fd sdata2 > 0 then (0, info\<lparr>fh := Some sdata2\<rparr>, NotFreed, w)
         else (- 1, info\<lparr>fh := None\<rparr>, FreedSdata, w))"

definition ldb_filecache_open ::
  "env \<Rightarrow> world \<Rightarrow> string \<Rightarrow> string \<Rightarrow> fuse_file_info \<Rightarrow> bool
     \<Rightarrow> (fault + int \<times> fuse_file_info \<times> freed \<times> world) option" where
  "ldb_filecache_open e w cache_path path info replace =
     (let (session, w0) = session_get e w in
      if \<not> session then Some (Inr (- EIO, info\<lparr>fh := None\<rparr>, FreedUninitialised, w0))
      else if \<not> malloc_sdata_ok e then Some (Inr (- 1, info\<lparr>fh := None\<rparr>, NotFreed, w0))
      else
        (let sdata = \<lparr>fd = 0, filename = [], readable = False, writable = False,
                      modified = False\<rparr>
         in if replace
            then
              (let sdata1 = sdata\<lparr>modified := True\<rparr>;
                   (r, name, d, w1) = new_cache_file e w0 cache_path;
                   sdata2 = sdata1\<lparr>filename := name, fd := d\<rparr>
               in if r < 0 then Some (Inr (- 1, info\<lparr>fh := None\<rparr>, FreedSdata, w1))
                  else
                    Some (Inr (open_finish
                                 (stat_cache_value_set w1 path (synthetic_attributes e w1 0))
                                 info sdata2)))
            else
              (case ldb_get_fresh_fd e w0 cache_path path of
                 None \<Rightarrow> None
               | Some (Inl f) \<Rightarrow> Some (Inl f)
               | Some (Inr (d, w1)) \<Rightarrow> Some (Inr (open_finish w1 info (sdata\<lparr>fd := d\<rparr>))))))"

text \<open>
  \<open>ldb_filecache_write\<close> (lines 311-337), with \<open>size\<close> the length of \<open>buf\<close>. The
  result is the return value, the file info (whose session data the call may change) and
  the world.
\<close>

definition ldb_filecache_write ::
  "env \<Rightarrow> world \<Rightarrow> fuse_file_info \<Rightarrow> string \<Rightarrow> int \<Rightarrow> fault + int \<times> fuse_file_info \<times> world" where
  "ldb_filecache_write e w info buf offset =
     (case fh info of
        None \<Rightarrow> Inl NullDeref
      | Some sdata \<Rightarrow>
          if \<not> writable sdata then Inr (0, info, w\<lparr>errno := EBADF\<rparr>)
          else
            (let (r, w1) = sys_pwrite e w (fd sdata) buf offset in
             if r < 0 then Inr (- errno w1, info, w1)
             else Inr (r, info\<lparr>fh := Some (sdata\<lparr>modified := True\<rparr>)\<rparr>, w1)))"

text \<open>
  \<open>ldb_filecache_sync\<close> (lines 410-498). It reads the session data and never writes to
  it, so the file info is not part of the result.
\<close>

definition ldb_filecache_sync ::
  "env \<Rightarrow> world \<Rightarrow> string \<Rightarrow> fuse_file_info \<Rightarrow> fault + int \<times> world" where
  "ldb_filecache_sync e w path info =
     (case fh info of
        None \<Rightarrow> Inl AssertFailed
      | Some sdata \<Rightarrow>
          if \<not> writable sdata then Inr (0, w)
          else if \<not> modified sdata then Inr (0, w)
          else
            (let (pos, w1) = lseek_set w (fd sdata) in
             if pos = - 1 then Inr (- 1, w1)
             else
               (let (session, w2) = session_get e w1 in
                if \<not> session then Inr (- 1, w2\<lparr>errno := EIO\<rparr>)
                else
                  (let (r, w3) = ne_put e w2 path (fd sdata) in
                   if r \<noteq> 0 then Inr (- 1, w3\<lparr>errno := ENOENT\<rparr>)
                   else
                     (let (size_of_file, w4) = lseek_end w3 (fd sdata)
                      in Inr (0, stat_cache_value_set w4 path
                                   (synthetic_attributes e w4 size_of_file)))))))"

definition ldb_filecache_close :: "world \<Rightarrow> ldb_filecache_sdata \<Rightarrow> int \<times> world" where
  "ldb_filecache_close w sdata = (0, if fd sdata \<ge> 0 then sys_close w (fd sdata) else w)"

definition ldb_filecache_release ::
  "env \<Rightarrow> world \<Rightarrow> string \<Rightarrow> fuse_file_info \<Rightarrow> fault + int \<times> world" where
  "ldb_filecache_release e w path info =
     (case fh info of
        None \<Rightarrow> Inl AssertFailed
      | Some sdata \<Rightarrow>
          (case ldb_filecache_sync e w path info of
             Inl f \<Rightarrow> Inl f
           | Inr (r, w1) \<Rightarrow>
               if r < 0 then Inr (r, w1)
               else Inr (0, snd (ldb_filecache_close w1 sdata))))"

subsection \<open>Reading results and traces\<close>

text \<open>
  What a call returned, when it returned: the value of a run that neither used up the
  script nor hit a fault.
\<close>

definition returned :: "(fault + 'a) option \<Rightarrow> 'a option" where
  "returned r = (case r of Some (Inr x) \<Rightarrow> Some x | _ \<Rightarrow> None)"

definition result_of :: "(fault + int \<times> world) option \<Rightarrow> int option" where
  "result_of r = map_option fst (returned r)"

definition world_of :: "(fault + int \<times> world) option \<Rightarrow> world" where
  "world_of r = snd (the (returned r))"

definition open_ret :: "(fault + int \<times> fuse_file_info \<times> freed \<times> world) option \<Rightarrow> int option" where
  "open_ret r = map_option fst (returned r)"

definition open_fh ::
  "(fault + int \<times> fuse_file_info \<times> freed \<times> world) option \<Rightarrow> ldb_filecache_sdata option" where
  "open_fh r = (case returned r of None \<Rightarrow> None | Some (x, info, fr, w) \<Rightarrow> fh info)"

definition open_freed ::
  "(fault + int \<times> fuse_file_info \<times> freed \<times> world) option \<Rightarrow> freed option" where
  "open_freed r = (case returned r of None \<Rightarrow> None | Some (x, info, fr, w) \<Rightarrow> Some fr)"

definition open_world :: "(fault + int \<times> fuse_file_info \<times> freed \<times> world) option \<Rightarrow> world" where
  "open_world r = snd (snd (snd (the (returned r))))"

text \<open>The calls into neon that go to the server, and among them the uploads.\<close>

definition is_remote :: "event \<Rightarrow> bool" where
  "is_remote ev =
     (case ev of
        RequestCreate _ \<Rightarrow> True
      | AddRequestHeader _ _ \<Rightarrow> True
      | BeginRequest \<Rightarrow> True
      | DiscardResponse \<Rightarrow> True
      | ReadResponseToFd _ \<Rightarrow> True
      | EndRequest \<Rightarrow> True
      | RequestDestroy \<Rightarrow> True
      | NePut _ _ _ \<Rightarrow> True
      | _ \<Rightarrow> False)"

definition remote_requests :: "event list \<Rightarrow> event list" where
  "remote_requests t = filter is_remote t"

definition is_upload :: "event \<Rightarrow> bool" where
  "is_upload ev = (case ev of NePut _ _ _ \<Rightarrow> True | _ \<Rightarrow> False)"

definition uploads :: "event list \<Rightarrow> event list" where
  "uploads t = filter is_upload t"

text \<open>The request headers that were added, \<open>If-None-Match\<close> being the only one in the code.\<close>

definition is_header :: "event \<Rightarrow> bool" where
  "is_header ev = (case ev of AddRequestHeader _ _ \<Rightarrow> True | _ \<Rightarrow> False)"

definition headers :: "event list \<Rightarrow> event list" where
  "headers t = filter is_header t"

text \<open>
  The descriptor that lines 205-229 of \<open>ldb_filecache_open\<close> store in \<open>sdata->fd\<close>,
  once the session and the session data are there: the one \<open>new_cache_file\<close> made for a
  replacing open, the one the resolver returned otherwise.
\<close>

definition obtain_descriptor ::
  "env \<Rightarrow> world \<Rightarrow> string \<Rightarrow> string \<Rightarrow> bool \<Rightarrow> (fault + int \<times> world) option" where
  "obtain_descriptor e w0 cache_path path replace =
     (if replace
      then (let (r, name, d, w1) = new_cache_file e w0 cache_path in Some (Inr (d, w1)))
      else ldb_get_fresh_fd e w0 cache_path path)"

subsection \<open>Concrete situations\<close>

text \<open>
  An environment in which every external call succeeds, and a world at time 100 with the
  three standard descriptors open, at most 8 descriptors, and nothing cached.
\<close>

definition env0 :: env where
  "env0 =
     \<lparr>session_ok = True, malloc_sdata_ok = True, malloc_pdata_ok = True, get_error = None,
      put_error = None, request_ok = True, attempts = [], mkstemp_suffix = ''Ab12Cd'',
      mkstemp_errno = None, pwrite_errno = None, ne_put_ok = True, uid = 1000, gid = 1000\<rparr>"

definition world0 :: world where
  "world0 =
     \<lparr>clock = 100, dir = Map.empty, idata = (\<lambda>i. []), next_inode = 1,
      fdtab = [0 \<mapsto> (0, True), 1 \<mapsto> (0, True), 2 \<mapsto> (0, True)], nofile = 8,
      store = Map.empty, statcache = Map.empty, errno = 0, trace = []\<rparr>"

text \<open>
  The same world after \<open>/a.txt\<close> was fetched at time \<open>t\<close>: its body is in a cache file and
  the store has the entry, with validator \<open>v1\<close>.
\<close>

definition old_entry :: "64 word \<Rightarrow> ldb_filecache_pdata" where
  "old_entry t =
     \<lparr>pd_filename = ''/c/files/fusedav-cache-Old001'', etag = ''v1'', last_server_update = t\<rparr>"

definition world_cached :: "64 word \<Rightarrow> world" where
  "world_cached t =
     world0\<lparr>dir := [''/c/files/fusedav-cache-Old001'' \<mapsto> 1],
            idata := (\<lambda>i. [])(1 := ''old body''),
            next_inode := 2,
            store := [''fc:/a.txt'' \<mapsto> old_entry t]\<rparr>"

text \<open>
  The server answers 200 with validator \<open>v2\<close> and a body of 8 bytes, of which \<open>n\<close>
  arrive.
\<close>

definition answer_200 :: "nat \<Rightarrow> response" where
  "answer_200 n =
     \<lparr>code = 200, etag_header = Some ''v2'', body = ''new body'', delivered = n,
      end_status = NE_OK\<rparr>"

definition env_200 :: "nat \<Rightarrow> env" where
  "env_200 n = env0\<lparr>attempts := [Answered (answer_200 n)]\<rparr>"

text \<open>
  The same answer while leveldb reports an error on every read.
\<close>

definition env_store_error :: env where
  "env_store_error = (env_200 8)\<lparr>get_error := Some ''IO error''\<rparr>"

text \<open>
  A world whose entry of \<open>/a.txt\<close> carries the largest \<open>time_t\<close> as its time, while the
  clock reads -100.
\<close>

definition world_wrapped :: world where
  "world_wrapped = (world_cached 9223372036854775807)\<lparr>clock := - 100\<rparr>"

text \<open>
  A handle as a replacing open with \<open>O_WRONLY\<close> leaves it after \<open>hello\<close> was written:
  descriptor 3 on a new cache file, writable and modified.
\<close>

definition info_rdonly :: fuse_file_info where
  "info_rdonly = \<lparr>flags = O_RDONLY, fh = None\<rparr>"

definition info_wronly :: fuse_file_info where
  "info_wronly = \<lparr>flags = O_WRONLY, fh = None\<rparr>"

definition sdata_written :: ldb_filecache_sdata where
  "sdata_written =
     \<lparr>fd = 3, filename = ''/c/files/fusedav-cache-Ab12Cd'', readable = False, writable = True,
      modified = True\<rparr>"

definition info_written :: fuse_file_info where
  "info_written = \<lparr>flags = O_WRONLY, fh = Some sdata_written\<rparr>"

definition world_written :: world where
  "world_written =
     world0\<lparr>dir := [''/c/files/fusedav-cache-Ab12Cd'' \<mapsto> 1],
            idata := (\<lambda>i. [])(1 := ''hello''),
            next_inode := 2,
            fdtab := [0 \<mapsto> (0, True), 1 \<mapsto> (0, True), 2 \<mapsto> (0, True), 3 \<mapsto> (1, True)]\<rparr>"

text \<open>A handle that is not writable: descriptor 3, read-only, on the cached file.\<close>

definition sdata_reader :: ldb_filecache_sdata where
  "sdata_reader =
     \<lparr>fd = 3, filename = [], readable = False, writable = False, modified = False\<rparr>"

definition info_reader :: fuse_file_info where
  "info_reader = \<lparr>flags = O_RDONLY, fh = Some sdata_reader\<rparr>"

definition world_reader :: world where
  "world_reader =
     (world_cached 99)\<lparr>fdtab := [0 \<mapsto> (0, True), 1 \<mapsto> (0, True), 2 \<mapsto> (0, True),
                                  3 \<mapsto> (1, False)]\<rparr>"

text \<open>The world in which standard input has been closed, so that descriptor 0 is free.\<close>

definition world_no_stdin :: world where
  "world_no_stdin = world0\<lparr>fdtab := [1 \<mapsto> (0, True), 2 \<mapsto> (0, True)]\<rparr>"

section \<open>Properties\<close>

subsection \<open>Helper lemmas\<close>

lemma pdata_get_found:
  "get_error e = None \<Longrightarrow> store w (path2key path) = Some pd \<Longrightarrow>
   ldb_filecache_pdata_get e w path = (Some pd, emit (LdbGet (path2key path)) w)"
  by (simp add: ldb_filecache_pdata_get_def leveldb_get_def)

lemma pdata_get_none:
  "get_error e = Some msg \<or> get_error e = None \<and> store w (path2key path) = None \<Longrightarrow>
   ldb_filecache_pdata_get e w path = (None, emit (LdbGet (path2key path)) w)"
  by (auto simp add: ldb_filecache_pdata_get_def leveldb_get_def)

lemma sys_open_trace:
  "trace (snd (sys_open w name)) = trace w @ [Open name (fst (sys_open w name))]"
  by (simp add: sys_open_def emit_def split: option.splits)

lemma sys_open_success:
  "dir w name = Some i \<Longrightarrow> lowest_free_fd w = Some n \<Longrightarrow>
   fst (sys_open w name) = n \<and> fdtab (snd (sys_open w name)) n = Some (i, False)"
  by (simp add: sys_open_def emit_def)

lemma lowest_free_fd_emit: "lowest_free_fd (emit ev w) = lowest_free_fd w"
  by (simp add: lowest_free_fd_def emit_def)

lemma sys_mkstemp_success:
  assumes "sys_mkstemp e w pattern = (d, name, w1)" and "0 \<le> d"
  shows "dir w name = None \<and> fdtab w d = None
       \<and> w1 = emit (Mkstemp pattern name d)
                (w\<lparr>dir := (dir w)(name \<mapsto> next_inode w),
                   idata := (idata w)(next_inode w := []),
                   next_inode := Suc (next_inode w),
                   fdtab := (fdtab w)(d \<mapsto> (next_inode w, True))\<rparr>)"
  using assms
  by (auto simp: sys_mkstemp_def Let_def lowest_free_fd_def find_Some_iff
           split: if_splits option.splits)

subsection \<open>Release\<close>

text \<open>
  Claim C1 says that release closes the descriptor of the handle whatever sync returns.
  The code leaves through \<open>finish\<close> before \<open>ldb_filecache_close\<close> when sync fails
  (lines 392-395). Here the handle is writable and modified and the upload fails: release
  returns -1, descriptor 3 is still open on the cache file, and no \<open>close\<close> was called.
\<close>

theorem release_leaks_descriptor_when_sync_fails:
  "result_of (Some (ldb_filecache_release (env0\<lparr>ne_put_ok := False\<rparr>) world_written
                      ''/a.txt'' info_written)) = Some (- 1)
   \<and> fdtab (world_of (Some (ldb_filecache_release (env0\<lparr>ne_put_ok := False\<rparr>) world_written
                               ''/a.txt'' info_written))) 3 = Some (1, True)
   \<and> trace (world_of (Some (ldb_filecache_release (env0\<lparr>ne_put_ok := False\<rparr>) world_written
                               ''/a.txt'' info_written)))
       = [Lseek 3 0, SessionGet, NePut ''/a.txt'' 3 ''hello'']"
  by (simp add: ldb_filecache_release_def ldb_filecache_sync_def lseek_set_def session_get_def
        ne_put_def emit_def result_of_def world_of_def returned_def env0_def world0_def
        world_written_def info_written_def sdata_written_def Let_def)

subsection \<open>Sync\<close>

text \<open>
  Claim C2, as the code has it: sync returns 0 and leaves the world as it is (so nothing
  is uploaded) when the handle is not writable or its \<open>modified\<close> flag is not set, and a
  second sync after it does the same. On a writable handle whose \<open>modified\<close> flag is set,
  every sync that returns 0 has uploaded once; sync never writes to the session data, so
  the flag stays set.
\<close>

theorem sync_uploads_iff_modified:
  assumes "fh info = Some sdata"
  shows "(\<not> writable sdata \<or> \<not> modified sdata \<longrightarrow>
            ldb_filecache_sync e w path info = Inr (0, w)
            \<and> ldb_filecache_sync e' (world_of (Some (ldb_filecache_sync e w path info))) path info
                = Inr (0, w))
       \<and> (writable sdata \<and> modified sdata \<longrightarrow>
            (\<forall>w'. ldb_filecache_sync e w path info = Inr (0, w') \<longrightarrow>
               length (uploads (trace w')) = Suc (length (uploads (trace w)))))"
proof -
  have noop: "ldb_filecache_sync e0 w0 path info = Inr (0, w0)"
    if "\<not> writable sdata \<or> \<not> modified sdata" for e0 w0
    using assms that by (auto simp: ldb_filecache_sync_def)
  have again: "length (uploads (trace w')) = Suc (length (uploads (trace w)))"
    if "writable sdata \<and> modified sdata" and "ldb_filecache_sync e w path info = Inr (0, w')"
    for w'
    using assms that
    by (auto simp: ldb_filecache_sync_def lseek_set_def session_get_def ne_put_def lseek_end_def
          stat_cache_value_set_def emit_def uploads_def is_upload_def Let_def
          split: option.splits if_splits prod.splits)
  show ?thesis
    using noop again by (simp add: world_of_def returned_def)
qed

text \<open>
  The theorem at a handle that is not writable, where sync changes nothing, and at the
  written handle, where the sync that returns 0 has uploaded once.
\<close>

theorem sync_uploads_iff_modified_witness:
  "fh info_reader = Some sdata_reader \<and> \<not> writable sdata_reader
   \<and> ldb_filecache_sync env0 world_reader ''/a.txt'' info_reader = Inr (0, world_reader)
   \<and> fh info_written = Some sdata_written \<and> writable sdata_written \<and> modified sdata_written
   \<and> result_of (Some (ldb_filecache_sync env0 world_written ''/a.txt'' info_written)) = Some 0
   \<and> length (uploads (trace (world_of
        (Some (ldb_filecache_sync env0 world_written ''/a.txt'' info_written))))) = Suc 0"
proof -
  have r: "fh info_reader = Some sdata_reader" and nw: "\<not> writable sdata_reader"
    by (simp_all add: info_reader_def sdata_reader_def)
  have h: "fh info_written = Some sdata_written"
    and wm: "writable sdata_written \<and> modified sdata_written"
    by (simp_all add: info_written_def sdata_written_def)
  have run: "ldb_filecache_sync env0 world_written ''/a.txt'' info_written
               = Inr (0, world_of (Some (ldb_filecache_sync env0 world_written ''/a.txt''
                                           info_written)))"
    by (simp add: ldb_filecache_sync_def lseek_set_def session_get_def ne_put_def lseek_end_def
          stat_cache_value_set_def emit_def world_of_def returned_def env0_def world0_def
          world_written_def info_written_def sdata_written_def Let_def)
  have t0: "uploads (trace world_written) = []"
    by (simp add: world_written_def world0_def uploads_def)
  from sync_uploads_iff_modified [OF r, of env0 world_reader "''/a.txt''" env0] nw
  have a: "ldb_filecache_sync env0 world_reader ''/a.txt'' info_reader = Inr (0, world_reader)"
    by simp
  from sync_uploads_iff_modified [OF h, of env0 world_written "''/a.txt''" env0] wm run
  have b: "length (uploads (trace (world_of
             (Some (ldb_filecache_sync env0 world_written ''/a.txt'' info_written)))))
           = Suc (length (uploads (trace world_written)))"
    by blast
  have c: "result_of (Some (ldb_filecache_sync env0 world_written ''/a.txt'' info_written))
             = Some 0"
    by (subst run) (simp add: result_of_def returned_def)
  show ?thesis using r nw a h wm b c t0 by simp
qed

text \<open>
  Claim C2 as stated fails on the second half: the written handle is synced (0 is
  returned, \<open>hello\<close> is uploaded), nothing is written, and the second sync uploads
  \<open>hello\<close> again.
\<close>

theorem second_sync_uploads_again:
  "result_of (Some (ldb_filecache_sync env0 world_written ''/a.txt'' info_written)) = Some 0
   \<and> result_of (Some (ldb_filecache_sync env0
        (world_of (Some (ldb_filecache_sync env0 world_written ''/a.txt'' info_written)))
        ''/a.txt'' info_written)) = Some 0
   \<and> uploads (trace (world_of (Some (ldb_filecache_sync env0
        (world_of (Some (ldb_filecache_sync env0 world_written ''/a.txt'' info_written)))
        ''/a.txt'' info_written))))
       = [NePut ''/a.txt'' 3 ''hello'', NePut ''/a.txt'' 3 ''hello'']"
  by (simp add: ldb_filecache_sync_def lseek_set_def session_get_def ne_put_def lseek_end_def
        stat_cache_value_set_def emit_def uploads_def is_upload_def result_of_def world_of_def
        returned_def env0_def world0_def world_written_def info_written_def sdata_written_def
        Let_def)

subsection \<open>The resolver on a full-content answer\<close>

text \<open>
  Claim C3 says that a 200 answer for a path that already has an entry updates the file
  name, the validator and the time of the entry before it is stored. The code reads the
  ETag header only when it has just allocated the entry (lines 142-150); for an existing
  entry it keeps the old validator. Here the entry is stale (fetched at 90, now 100) with
  validator \<open>v1\<close> and the server answers 200 with validator \<open>v2\<close>: the entry that is
  stored has the new file and the new time, and still \<open>v1\<close>.
\<close>

theorem replacement_keeps_old_validator:
  "etag_header (answer_200 8) = Some ''v2''
   \<and> result_of (ldb_get_fresh_fd (env_200 8) (world_cached 90) ''/c'' ''/a.txt'') = Some 3
   \<and> store (world_of (ldb_get_fresh_fd (env_200 8) (world_cached 90) ''/c'' ''/a.txt''))
        ''fc:/a.txt''
       = Some \<lparr>pd_filename = ''/c/files/fusedav-cache-Ab12Cd'', etag = ''v1'',
                last_server_update = 100\<rparr>"
  by (simp add: ldb_get_fresh_fd_def ldb_filecache_pdata_get_def leveldb_get_def path2key_def
        conditional_get_def full_content_def new_cache_file_def sys_mkstemp_def
        lowest_free_fd_def ne_read_response_to_fd_def write_at_def ldb_filecache_pdata_set_def
        leveldb_put_def sys_unlink_def emit_def time_now_def REFRESH_INTERVAL_def PATH_MAX_def
        result_of_def world_of_def returned_def env0_def world0_def old_entry_def
        world_cached_def answer_200_def env_200_def Let_def upt_rec)

subsection \<open>Open\<close>

text \<open>
  Claim C4 says that a read-only open yields a readable handle. The code tests
  \<open>flags & O_RDONLY\<close> (line 231), and \<open>O_RDONLY\<close> is 0, so the test never holds: only
  \<open>O_RDWR\<close> sets \<open>readable\<close>. Here \<open>/a.txt\<close> is cached and fresh and is opened with
  \<open>O_RDONLY\<close>: the open succeeds and the handle is neither readable nor writable.
\<close>

theorem read_only_open_is_not_readable:
  "flags info_rdonly = O_RDONLY
   \<and> open_ret (ldb_filecache_open env0 (world_cached 99) ''/c'' ''/a.txt'' info_rdonly False)
       = Some 0
   \<and> open_fh (ldb_filecache_open env0 (world_cached 99) ''/c'' ''/a.txt'' info_rdonly False)
       = Some \<lparr>fd = 3, filename = [], readable = False, writable = False, modified = False\<rparr>"
  by (simp add: ldb_filecache_open_def session_get_def ldb_get_fresh_fd_def
        ldb_filecache_pdata_get_def leveldb_get_def path2key_def sys_open_def lowest_free_fd_def
        emit_def time_now_def open_finish_def nonzero_def O_RDONLY_def O_WRONLY_def O_RDWR_def
        REFRESH_INTERVAL_def open_ret_def open_fh_def returned_def env0_def world0_def
        old_entry_def world_cached_def info_rdonly_def Let_def upt_rec)

text \<open>
  Claim C5, as the code has it: a replacing open that succeeds has made a new, empty cache
  file with \<open>mkstemp\<close> (the name was not in the directory, the descriptor is open on it
  for writing), has set the \<open>modified\<close> flag of the handle, and has published attributes
  of size 0 for the path. Its external calls are \<open>session_get\<close>, \<open>mkstemp\<close> and
  \<open>stat_cache_value_set\<close>, in this order, and nothing else: neither the store nor the
  server is asked.
\<close>

theorem replace_open_effects:
  assumes "open_ret (ldb_filecache_open e w cache_path path info True) = Some 0"
  shows "\<exists>sd. open_fh (ldb_filecache_open e w cache_path path info True) = Some sd
          \<and> modified sd
          \<and> dir w (filename sd) = None
          \<and> dir (open_world (ldb_filecache_open e w cache_path path info True)) (filename sd)
              = Some (next_inode w)
          \<and> idata (open_world (ldb_filecache_open e w cache_path path info True)) (next_inode w)
              = []
          \<and> fdtab (open_world (ldb_filecache_open e w cache_path path info True)) (fd sd)
              = Some (next_inode w, True)
          \<and> statcache (open_world (ldb_filecache_open e w cache_path path info True)) path
              = Some (synthetic_attributes e w 0)
          \<and> st_size (synthetic_attributes e w 0) = 0
          \<and> trace (open_world (ldb_filecache_open e w cache_path path info True))
              = trace w @
                [SessionGet,
                 Mkstemp (take (PATH_MAX - 1) (cache_path @ ''/files/fusedav-cache-XXXXXX''))
                   (filename sd) (fd sd),
                 StatCacheSet path (synthetic_attributes e w 0)]"
proof -
  let ?pattern = "take (PATH_MAX - 1) (cache_path @ ''/files/fusedav-cache-XXXXXX'')"
  let ?w0 = "emit SessionGet w"
  obtain d name w1 where m: "sys_mkstemp e ?w0 ?pattern = (d, name, w1)"
    by (cases "sys_mkstemp e ?w0 ?pattern") auto
  have ok: "session_ok e \<and> malloc_sdata_ok e \<and> 0 < d"
    using assms m
    by (auto simp: ldb_filecache_open_def session_get_def new_cache_file_def open_finish_def
          Let_def open_ret_def returned_def EIO_def split: if_splits)
  then have "0 \<le> d" by simp
  from sys_mkstemp_success [OF m this]
  have fresh: "dir ?w0 name = None"
    and w1: "w1 = emit (Mkstemp ?pattern name d)
                (?w0\<lparr>dir := (dir ?w0)(name \<mapsto> next_inode ?w0),
                   idata := (idata ?w0)(next_inode ?w0 := []),
                   next_inode := Suc (next_inode ?w0),
                   fdtab := (fdtab ?w0)(d \<mapsto> (next_inode ?w0, True))\<rparr>)"
    by simp_all
  have attrs: "synthetic_attributes e w1 0 = synthetic_attributes e w 0"
    by (simp add: w1 synthetic_attributes_def time_now_def emit_def)
  have run: "ldb_filecache_open e w cache_path path info True =
          Some (Inr (0, info\<lparr>fh := Some
                  (\<lparr>fd = d, filename = name,
                     readable = (nonzero (flags info AND O_RDONLY) \<or> nonzero (flags info AND O_RDWR)),
                     writable = (nonzero (flags info AND O_WRONLY) \<or> nonzero (flags info AND O_RDWR)),
                     modified = True\<rparr>)\<rparr>, NotFreed,
                stat_cache_value_set w1 path (synthetic_attributes e w 0)))"
    using ok m attrs
    by (simp add: ldb_filecache_open_def session_get_def new_cache_file_def open_finish_def Let_def)
  have size0: "st_size (synthetic_attributes e w 0) = 0"
    by (simp add: synthetic_attributes_def)
  show ?thesis
    using fresh size0
    by (simp add: run open_fh_def open_world_def returned_def stat_cache_value_set_def w1)
       (simp add: emit_def)
qed

text \<open>The theorem at a replacing open of \<open>/a.txt\<close> for writing, with nothing cached.\<close>

theorem replace_open_effects_witness:
  "open_ret (ldb_filecache_open env0 world0 ''/c'' ''/a.txt'' info_wronly True) = Some 0
   \<and> open_fh (ldb_filecache_open env0 world0 ''/c'' ''/a.txt'' info_wronly True)
       = Some \<lparr>fd = 3, filename = ''/c/files/fusedav-cache-Ab12Cd'', readable = False,
                writable = True, modified = True\<rparr>
   \<and> map_option st_size
        (statcache (open_world (ldb_filecache_open env0 world0 ''/c'' ''/a.txt'' info_wronly True))
           ''/a.txt'') = Some 0
   \<and> remote_requests
        (trace (open_world (ldb_filecache_open env0 world0 ''/c'' ''/a.txt'' info_wronly True)))
       = []"
proof -
  have h: "open_ret (ldb_filecache_open env0 world0 ''/c'' ''/a.txt'' info_wronly True) = Some 0"
    by (simp add: ldb_filecache_open_def session_get_def new_cache_file_def sys_mkstemp_def
          lowest_free_fd_def emit_def stat_cache_value_set_def open_finish_def nonzero_def
          O_RDONLY_def O_WRONLY_def O_RDWR_def PATH_MAX_def open_ret_def returned_def env0_def
          world0_def info_wronly_def Let_def upt_rec)
  have sd: "open_fh (ldb_filecache_open env0 world0 ''/c'' ''/a.txt'' info_wronly True)
       = Some \<lparr>fd = 3, filename = ''/c/files/fusedav-cache-Ab12Cd'', readable = False,
                writable = True, modified = True\<rparr>"
    by (simp add: ldb_filecache_open_def session_get_def new_cache_file_def sys_mkstemp_def
          lowest_free_fd_def emit_def stat_cache_value_set_def open_finish_def nonzero_def
          O_RDONLY_def O_WRONLY_def O_RDWR_def PATH_MAX_def open_fh_def returned_def env0_def
          world0_def info_wronly_def Let_def upt_rec)
  have t: "trace world0 = []"
    by (simp add: world0_def)
  from replace_open_effects [OF h] sd t show ?thesis
    using h by (auto simp: remote_requests_def is_remote_def)
qed

text \<open>
  Claim C5 as stated fails on the \<open>modified\<close> flag: the handle of a replacing open has
  it set before anything is written (line 207).
\<close>

theorem replace_open_sets_modified:
  "open_ret (ldb_filecache_open env0 world0 ''/c'' ''/a.txt'' info_wronly True) = Some 0
   \<and> map_option modified
        (open_fh (ldb_filecache_open env0 world0 ''/c'' ''/a.txt'' info_wronly True))
       = Some True
   \<and> trace (open_world (ldb_filecache_open env0 world0 ''/c'' ''/a.txt'' info_wronly True))
       = [SessionGet,
          Mkstemp ''/c/files/fusedav-cache-XXXXXX'' ''/c/files/fusedav-cache-Ab12Cd'' 3,
          StatCacheSet ''/a.txt'' (synthetic_attributes env0 world0 0)]"
  by (simp add: ldb_filecache_open_def session_get_def new_cache_file_def sys_mkstemp_def
        lowest_free_fd_def emit_def stat_cache_value_set_def synthetic_attributes_def
        time_now_def open_finish_def nonzero_def O_RDONLY_def O_WRONLY_def O_RDWR_def
        PATH_MAX_def open_ret_def open_fh_def open_world_def returned_def env0_def world0_def
        info_wronly_def Let_def upt_rec)

subsection \<open>The metadata lookup\<close>

lemma sys_mkstemp_trace:
  "\<exists>ev. trace (snd (snd (sys_mkstemp e w t))) = trace w @ [ev] \<and> \<not> is_header ev"
  by (simp add: sys_mkstemp_def emit_def is_header_def Let_def split: option.splits)

lemma ne_read_response_to_fd_trace:
  "trace (ne_read_response_to_fd w r d) = trace w @ [ReadResponseToFd d]"
  by (simp add: ne_read_response_to_fd_def emit_def split: option.splits)

lemma pdata_set_trace:
  "trace (snd (ldb_filecache_pdata_set e w path (Some pd))) = trace w @ [LdbPut (path2key path) pd]"
  by (simp add: ldb_filecache_pdata_set_def leveldb_put_def emit_def Let_def split: option.splits)

lemma full_content_no_entry:
  assumes "full_content e w cache_path path None r = Inr (d, w')"
  shows "\<exists>rest. trace w' = trace w @ rest \<and> headers rest = []"
proof -
  obtain t where t: "malloc_pdata_ok e" "etag_header r = Some t"
    using assms by (auto simp: full_content_def split: if_splits option.splits)
  define m where
    "m = sys_mkstemp e w (take (PATH_MAX - 1) (cache_path @ ''/files/fusedav-cache-XXXXXX''))"
  define w1 where "w1 = snd (snd m)"
  define w2 where "w2 = ne_read_response_to_fd w1 r (fst m)"
  define pd where "pd = \<lparr>pd_filename = fst (snd m), etag = take ETAG_MAX t,
                           last_server_update = time_now w2\<rparr>"
  have w': "w' = snd (ldb_filecache_pdata_set e w2 path (Some pd))"
    using assms t unfolding pd_def w2_def w1_def m_def
    by (auto simp: full_content_def new_cache_file_def Let_def split_beta split: if_splits)
  obtain ev where ev: "trace w1 = trace w @ [ev]" "\<not> is_header ev"
    unfolding w1_def m_def using sys_mkstemp_trace by blast
  have "trace w' = trace w @ [ev, ReadResponseToFd (fst m), LdbPut (path2key path) pd]"
    unfolding w' pdata_set_trace w2_def ne_read_response_to_fd_trace ev(1) by simp
  moreover have "headers [ev, ReadResponseToFd (fst m), LdbPut (path2key path) pd] = []"
    using ev(2) by (simp add: headers_def is_header_def)
  ultimately show ?thesis by blast
qed

lemma request_loop_no_entry:
  "request_loop e cache_path path None as w = Some (Inr (d, w')) \<Longrightarrow>
   \<exists>rest. trace w' = trace w @ BeginRequest # rest \<and> headers rest = []"
proof (induction as arbitrary: w)
  case Nil
  then show ?case by simp
next
  case (Cons a as)
  let ?w1 = "emit BeginRequest w"
  have t1: "trace ?w1 = trace w @ [BeginRequest]"
    by (simp add: emit_def)
  show ?case
  proof (cases a)
    case BeginFailed
    with Cons.prems have "w' = ?w1" by simp
    with t1 show ?thesis by (simp add: headers_def)
  next
    case (Answered r)
    consider (nm) "code r = 304" | (full) "code r \<noteq> 304" "code r = 200"
      | (other) "code r \<noteq> 304" "code r \<noteq> 200"
      by blast
    then show ?thesis
    proof cases
      case nm
      with Cons.prems Answered show ?thesis
        by (simp add: not_modified_def)
    next
      case full
      with Cons.prems Answered
      have "full_content e ?w1 cache_path path None r = Inr (d, w')"
        by simp
      from full_content_no_entry [OF this] t1 show ?thesis
        by auto
    next
      case other
      let ?w2 = "emit EndRequest ?w1"
      have t2: "trace ?w2 = trace w @ [BeginRequest, EndRequest]"
        by (simp add: emit_def)
      show ?thesis
      proof (cases "end_status r = NE_RETRY")
        case True
        with Cons.prems Answered other
        have "request_loop e cache_path path None as ?w2 = Some (Inr (d, w'))"
          by (simp add: Let_def)
        from Cons.IH [OF this] obtain rest
          where "trace w' = trace ?w2 @ BeginRequest # rest" and "headers rest = []"
          by blast
        then have "trace w' = trace w @ BeginRequest # (EndRequest # BeginRequest # rest)
                   \<and> headers (EndRequest # BeginRequest # rest) = []"
          by (simp add: t2 headers_def is_header_def)
        then show ?thesis by blast
      next
        case False
        with Cons.prems Answered other have "w' = ?w2"
          by (simp add: Let_def)
        then have "trace w' = trace w @ BeginRequest # [EndRequest] \<and> headers [EndRequest] = []"
          by (simp add: t2 headers_def is_header_def)
        then show ?thesis by blast
      qed
    qed
  qed
qed

lemma conditional_get_no_entry:
  assumes "conditional_get e w cache_path path None = Some (Inr (d, w'))"
  shows "\<exists>rest. trace w' = trace w @ RequestCreate path # rest \<and> headers rest = []
           \<and> (request_ok e \<longrightarrow> (\<exists>rest'. rest = BeginRequest # rest'))"
proof (cases "request_ok e")
  case False
  with assms have "w' = emit (RequestCreate path) w"
    by (simp add: conditional_get_def Let_def)
  then have "trace w' = trace w @ RequestCreate path # []"
    by (simp add: emit_def)
  with False show ?thesis by (simp add: headers_def)
next
  case True
  let ?w1 = "emit (RequestCreate path) w"
  from assms True obtain w3
    where l: "request_loop e cache_path path None (attempts e) ?w1 = Some (Inr (d, w3))"
      and w': "w' = emit RequestDestroy w3"
    by (auto simp: conditional_get_def Let_def split: option.splits sum.splits)
  from request_loop_no_entry [OF l] obtain rest
    where r: "trace w3 = trace ?w1 @ BeginRequest # rest" "headers rest = []"
    by blast
  have "trace w' = trace w @ RequestCreate path # (BeginRequest # rest @ [RequestDestroy])"
    by (simp add: w' r(1) emit_def)
  moreover have "headers (BeginRequest # rest @ [RequestDestroy]) = []"
    using r(2) by (simp add: headers_def is_header_def)
  ultimately show ?thesis by blast
qed

text \<open>
  Claim C6, as the code has it: when leveldb reports an error, whatever the error and
  whatever the store holds, \<open>ldb_filecache_pdata_get\<close> returns NULL, which is also what
  it returns for an absent key; the resolver goes on in both cases with no entry. Whenever
  it then returns, the trace shows the lookup, after it the creation of the request for
  the path, and no header added to the request; and when the request could be created,
  \<open>ne_begin_request\<close> has sent it.
\<close>

theorem get_failure_is_a_miss:
  assumes "get_error e = Some msg \<or> get_error e = None \<and> store w (path2key path) = None"
  shows "ldb_filecache_pdata_get e w path = (None, emit (LdbGet (path2key path)) w)
         \<and> ldb_get_fresh_fd e w cache_path path
             = conditional_get e (emit (LdbGet (path2key path)) w) cache_path path None
         \<and> (\<forall>d. result_of (ldb_get_fresh_fd e w cache_path path) = Some d \<longrightarrow>
              (\<exists>rest. trace (world_of (ldb_get_fresh_fd e w cache_path path))
                         = trace w @ LdbGet (path2key path) # RequestCreate path # rest
                     \<and> headers rest = []
                     \<and> (request_ok e \<longrightarrow> (\<exists>rest'. rest = BeginRequest # rest'))))"
proof -
  let ?w1 = "emit (LdbGet (path2key path)) w"
  have get: "ldb_filecache_pdata_get e w path = (None, ?w1)"
    by (rule pdata_get_none [OF assms])
  have run: "ldb_get_fresh_fd e w cache_path path = conditional_get e ?w1 cache_path path None"
    by (simp add: ldb_get_fresh_fd_def get)
  have req: "\<exists>rest. trace (world_of (ldb_get_fresh_fd e w cache_path path))
                         = trace w @ LdbGet (path2key path) # RequestCreate path # rest
                     \<and> headers rest = []
                     \<and> (request_ok e \<longrightarrow> (\<exists>rest'. rest = BeginRequest # rest'))"
    if "result_of (ldb_get_fresh_fd e w cache_path path) = Some d" for d
  proof -
    from that obtain w' where c: "conditional_get e ?w1 cache_path path None = Some (Inr (d, w'))"
      by (auto simp: run result_of_def returned_def split: option.splits sum.splits)
    have out: "world_of (ldb_get_fresh_fd e w cache_path path) = w'"
      by (simp add: run c world_of_def returned_def)
    have t1: "trace ?w1 = trace w @ [LdbGet (path2key path)]"
      by (simp add: emit_def)
    from conditional_get_no_entry [OF c] obtain rest
      where "trace w' = trace ?w1 @ RequestCreate path # rest" and "headers rest = []"
        and "request_ok e \<longrightarrow> (\<exists>rest'. rest = BeginRequest # rest')"
      by blast
    then have "trace w' = trace w @ LdbGet (path2key path) # RequestCreate path # rest
               \<and> headers rest = []
               \<and> (request_ok e \<longrightarrow> (\<exists>rest'. rest = BeginRequest # rest'))"
      by (simp add: t1)
    then show ?thesis
      unfolding out by blast
  qed
  from get run req show ?thesis by blast
qed

text \<open>
  The theorem at a store that holds the fresh entry of \<open>/a.txt\<close> and reports an I/O error
  while the server answers 200: the lookup returns NULL and the resolver fetches the file
  with a request that has no \<open>If-None-Match\<close> header.
\<close>

theorem get_failure_is_a_miss_witness:
  "get_error env_store_error = Some ''IO error''
   \<and> store (world_cached 99) (path2key ''/a.txt'') = Some (old_entry 99)
   \<and> fst (ldb_filecache_pdata_get env_store_error (world_cached 99) ''/a.txt'') = None
   \<and> result_of (ldb_get_fresh_fd env_store_error (world_cached 99) ''/c'' ''/a.txt'') = Some 3
   \<and> trace (world_of (ldb_get_fresh_fd env_store_error (world_cached 99) ''/c'' ''/a.txt''))
       = [LdbGet ''fc:/a.txt'', RequestCreate ''/a.txt'', BeginRequest,
          Mkstemp ''/c/files/fusedav-cache-XXXXXX'' ''/c/files/fusedav-cache-Ab12Cd'' 3,
          ReadResponseToFd 3,
          LdbPut ''fc:/a.txt''
            \<lparr>pd_filename = ''/c/files/fusedav-cache-Ab12Cd'', etag = ''v2'',
               last_server_update = 100\<rparr>,
          RequestDestroy]
   \<and> headers (trace (world_of (ldb_get_fresh_fd env_store_error (world_cached 99) ''/c''
                                  ''/a.txt''))) = []"
proof -
  have h: "get_error env_store_error = Some ''IO error''"
    by (simp add: env_store_error_def)
  have s: "store (world_cached 99) (path2key ''/a.txt'') = Some (old_entry 99)"
    by (simp add: world_cached_def world0_def path2key_def)
  have t0: "trace (world_cached 99) = []"
    by (simp add: world_cached_def world0_def)
  have r: "result_of (ldb_get_fresh_fd env_store_error (world_cached 99) ''/c'' ''/a.txt'')
             = Some 3"
    and t: "trace (world_of (ldb_get_fresh_fd env_store_error (world_cached 99) ''/c'' ''/a.txt''))
       = [LdbGet ''fc:/a.txt'', RequestCreate ''/a.txt'', BeginRequest,
          Mkstemp ''/c/files/fusedav-cache-XXXXXX'' ''/c/files/fusedav-cache-Ab12Cd'' 3,
          ReadResponseToFd 3,
          LdbPut ''fc:/a.txt''
            \<lparr>pd_filename = ''/c/files/fusedav-cache-Ab12Cd'', etag = ''v2'',
               last_server_update = 100\<rparr>,
          RequestDestroy]"
    by (simp_all add: ldb_get_fresh_fd_def ldb_filecache_pdata_get_def leveldb_get_def
          path2key_def conditional_get_def full_content_def new_cache_file_def sys_mkstemp_def
          lowest_free_fd_def ne_read_response_to_fd_def write_at_def
          ldb_filecache_pdata_set_def leveldb_put_def emit_def time_now_def PATH_MAX_def
          ETAG_MAX_def result_of_def world_of_def returned_def env0_def world0_def
          old_entry_def world_cached_def answer_200_def env_200_def env_store_error_def
          Let_def upt_rec)
  note inst = get_failure_is_a_miss [of env_store_error "''IO error''" "world_cached 99"
      "''/a.txt''" "''/c''"]
  from inst h
  have g: "fst (ldb_filecache_pdata_get env_store_error (world_cached 99) ''/a.txt'') = None"
    by simp
  from inst h r obtain rest
    where "trace (world_of (ldb_get_fresh_fd env_store_error (world_cached 99) ''/c'' ''/a.txt''))
             = trace (world_cached 99) @ LdbGet (path2key ''/a.txt'') # RequestCreate ''/a.txt''
                 # rest"
      and "headers rest = []"
    by blast
  then have hd: "headers (trace (world_of (ldb_get_fresh_fd env_store_error (world_cached 99)
                                             ''/c'' ''/a.txt''))) = []"
    by (simp add: t0 headers_def is_header_def)
  from h s g r t hd show ?thesis by blast
qed

text \<open>
  Claim C6 as stated fails: the store holds the entry of \<open>/a.txt\<close> and reports an I/O
  error, and the lookup returns what it returns on an empty store.
\<close>

theorem get_error_returns_null_like_miss:
  "store (world_cached 99) (path2key ''/a.txt'') = Some (old_entry 99)
   \<and> fst (ldb_filecache_pdata_get (env0\<lparr>get_error := Some ''IO error''\<rparr>) (world_cached 99)
            ''/a.txt'') = None
   \<and> store world0 (path2key ''/a.txt'') = None
   \<and> fst (ldb_filecache_pdata_get env0 world0 ''/a.txt'') = None"
  by (simp add: ldb_filecache_pdata_get_def leveldb_get_def path2key_def env0_def world0_def
        world_cached_def Let_def)

subsection \<open>The freshness window\<close>

text \<open>
  Claim C7, as the code has it: when the lookup finds the entry of the path (leveldb
  reports no error), revalidated at time \<open>T\<close>, and the clock reads \<open>T + \<delta>\<close>, a sum of
  \<open>time_t\<close> values on 64 bits, with the signed value of \<open>\<delta>\<close> at most
  \<open>REFRESH_INTERVAL\<close>, the resolver returns what \<open>open\<close> returns on the file name of
  the entry; the trace has no call to the server that it did not have before; and when
  the file is in the directory and a descriptor is free, the result is that descriptor,
  open on the file.
\<close>

theorem fresh_entry_opens_local_file:
  assumes "get_error e = None" and "store w (path2key path) = Some pd"
    and "last_server_update pd = T" and "clock w = T + \<delta>"
    and "sint \<delta> \<le> REFRESH_INTERVAL"
  shows "ldb_get_fresh_fd e w cache_path path =
           Some (Inr (sys_open (emit (LdbGet (path2key path)) w) (pd_filename pd)))
         \<and> remote_requests (trace (world_of (ldb_get_fresh_fd e w cache_path path)))
             = remote_requests (trace w)
         \<and> (\<forall>i n. dir w (pd_filename pd) = Some i \<and> lowest_free_fd w = Some n \<longrightarrow>
               result_of (ldb_get_fresh_fd e w cache_path path) = Some n
               \<and> fdtab (world_of (ldb_get_fresh_fd e w cache_path path)) n = Some (i, False))"
proof -
  let ?w1 = "emit (LdbGet (path2key path)) w"
  have "time_now ?w1 - last_server_update pd = \<delta>"
    using assms(3,4) by (simp add: time_now_def emit_def)
  with assms(5) have fresh: "sint (time_now ?w1 - last_server_update pd) \<le> REFRESH_INTERVAL"
    by simp
  have run: "ldb_get_fresh_fd e w cache_path path = Some (Inr (sys_open ?w1 (pd_filename pd)))"
    using fresh by (simp add: ldb_get_fresh_fd_def pdata_get_found [OF assms(1,2)])
  have tr: "trace (snd (sys_open ?w1 (pd_filename pd)))
              = trace w @ [LdbGet (path2key path),
                           Open (pd_filename pd) (fst (sys_open ?w1 (pd_filename pd)))]"
    by (simp add: sys_open_trace) (simp add: emit_def)
  have quiet: "remote_requests (trace (world_of (ldb_get_fresh_fd e w cache_path path)))
                 = remote_requests (trace w)"
    by (simp add: run world_of_def returned_def tr remote_requests_def is_remote_def)
  have opened: "result_of (ldb_get_fresh_fd e w cache_path path) = Some n
       \<and> fdtab (world_of (ldb_get_fresh_fd e w cache_path path)) n = Some (i, False)"
    if "dir w (pd_filename pd) = Some i" and "lowest_free_fd w = Some n" for i n
  proof -
    have d: "dir ?w1 (pd_filename pd) = Some i" using that(1) by (simp add: emit_def)
    have l: "lowest_free_fd ?w1 = Some n" using that(2) by (simp add: lowest_free_fd_emit)
    from sys_open_success [OF d l] show ?thesis
      by (simp add: run result_of_def world_of_def returned_def)
  qed
  from run quiet opened show ?thesis by blast
qed

text \<open>
  The theorem at \<open>/a.txt\<close>, revalidated at 99 and opened at 100: descriptor 3 is returned,
  read-only on inode 1, the cached file, and the server is not called.
\<close>

theorem fresh_entry_opens_local_file_witness:
  "get_error env0 = None
   \<and> store (world_cached 99) (path2key ''/a.txt'') = Some (old_entry 99)
   \<and> last_server_update (old_entry 99) = 99
   \<and> clock (world_cached 99) = 99 + 1
   \<and> sint (1 :: 64 word) \<le> REFRESH_INTERVAL
   \<and> dir (world_cached 99) (pd_filename (old_entry 99)) = Some 1
   \<and> result_of (ldb_get_fresh_fd env0 (world_cached 99) ''/c'' ''/a.txt'') = Some 3
   \<and> fdtab (world_of (ldb_get_fresh_fd env0 (world_cached 99) ''/c'' ''/a.txt'')) 3
       = Some (1, False)
   \<and> remote_requests (trace (world_of (ldb_get_fresh_fd env0 (world_cached 99) ''/c'' ''/a.txt'')))
       = []"
proof -
  have h1: "get_error env0 = None"
    by (simp add: env0_def)
  have h2: "store (world_cached 99) (path2key ''/a.txt'') = Some (old_entry 99)"
    by (simp add: world_cached_def world0_def path2key_def)
  have h3: "last_server_update (old_entry 99) = 99"
    by (simp add: old_entry_def)
  have h4: "clock (world_cached 99) = 99 + 1"
    by (simp add: world_cached_def world0_def)
  have h5: "sint (1 :: 64 word) \<le> REFRESH_INTERVAL"
    by (simp add: REFRESH_INTERVAL_def)
  have d: "dir (world_cached 99) (pd_filename (old_entry 99)) = Some 1"
    by (simp add: world_cached_def world0_def old_entry_def)
  have l: "lowest_free_fd (world_cached 99) = Some 3"
    by (simp add: world_cached_def world0_def lowest_free_fd_def upt_rec)
  have t: "remote_requests (trace (world_cached 99)) = []"
    by (simp add: world_cached_def world0_def remote_requests_def)
  note inst = fresh_entry_opens_local_file [OF h1 h2 h3 h4 h5, of "''/c''"]
  from inst d l
  have o: "result_of (ldb_get_fresh_fd env0 (world_cached 99) ''/c'' ''/a.txt'') = Some 3
       \<and> fdtab (world_of (ldb_get_fresh_fd env0 (world_cached 99) ''/c'' ''/a.txt'')) 3
           = Some (1, False)"
    by blast
  from inst
  have "remote_requests
          (trace (world_of (ldb_get_fresh_fd env0 (world_cached 99) ''/c'' ''/a.txt'')))
        = remote_requests (trace (world_cached 99))"
    by blast
  with t
  have q: "remote_requests
             (trace (world_of (ldb_get_fresh_fd env0 (world_cached 99) ''/c'' ''/a.txt''))) = []"
    by simp
  from h1 h2 h3 h4 h5 d o q show ?thesis by blast
qed

text \<open>
  Claim C7 as stated fails in two ways. The entry of \<open>/a.txt\<close> was revalidated at 99 and
  the path is opened at 100, but leveldb reports an error on the read: the lookup returns
  NULL and the resolver sends a request. And the entry carries the largest \<open>time_t\<close>
  while the clock reads -100, a time that lies before the revalidation: the difference
  wraps around to a large positive value, the entry counts as stale, and the resolver
  sends a request.
\<close>

theorem fresh_entry_refetched:
  "store (world_cached 99) (path2key ''/a.txt'') = Some (old_entry 99)
   \<and> sint (clock (world_cached 99)) = sint (last_server_update (old_entry 99)) + 1
   \<and> (1 :: int) \<le> REFRESH_INTERVAL
   \<and> result_of (ldb_get_fresh_fd env_store_error (world_cached 99) ''/c'' ''/a.txt'') = Some 3
   \<and> remote_requests
        (trace (world_of (ldb_get_fresh_fd env_store_error (world_cached 99) ''/c'' ''/a.txt'')))
       = [RequestCreate ''/a.txt'', BeginRequest, ReadResponseToFd 3, RequestDestroy]
   \<and> get_error (env_200 8) = None
   \<and> store world_wrapped (path2key ''/a.txt'') = Some (old_entry 9223372036854775807)
   \<and> sint (clock world_wrapped)
       = sint (last_server_update (old_entry 9223372036854775807)) + (- 9223372036854775907)
   \<and> (- 9223372036854775907 :: int) \<le> REFRESH_INTERVAL
   \<and> result_of (ldb_get_fresh_fd (env_200 8) world_wrapped ''/c'' ''/a.txt'') = Some 3
   \<and> remote_requests
        (trace (world_of (ldb_get_fresh_fd (env_200 8) world_wrapped ''/c'' ''/a.txt'')))
       = [RequestCreate ''/a.txt'', AddRequestHeader ''If-None-Match'' ''v1'', BeginRequest,
          ReadResponseToFd 3, RequestDestroy]"
  by (simp add: ldb_get_fresh_fd_def ldb_filecache_pdata_get_def leveldb_get_def path2key_def
        conditional_get_def full_content_def new_cache_file_def sys_mkstemp_def
        lowest_free_fd_def ne_read_response_to_fd_def write_at_def ldb_filecache_pdata_set_def
        leveldb_put_def sys_unlink_def emit_def time_now_def REFRESH_INTERVAL_def PATH_MAX_def
        ETAG_MAX_def result_of_def world_of_def returned_def remote_requests_def is_remote_def
        env0_def world0_def old_entry_def world_cached_def answer_200_def env_200_def
        env_store_error_def world_wrapped_def Let_def upt_rec)

subsection \<open>Write\<close>

text \<open>
  Claim C8: a write on a handle that is not writable returns 0 and sets \<open>errno\<close> to
  \<open>EBADF\<close>, the error of a descriptor that is not open for writing. Nothing else of the
  world changes, so no \<open>pwrite\<close> is in the trace and no file has new content, and the
  session data is returned as it was, so \<open>modified\<close> is not set by this call.
\<close>

theorem write_gating:
  assumes "fh info = Some sdata" and "\<not> writable sdata"
  shows "ldb_filecache_write e w info buf offset = Inr (0, info, w\<lparr>errno := EBADF\<rparr>)
         \<and> trace (w\<lparr>errno := EBADF\<rparr>) = trace w
         \<and> idata (w\<lparr>errno := EBADF\<rparr>) = idata w"
  using assms by (simp add: ldb_filecache_write_def)

text \<open>The theorem at a write of \<open>hello\<close> through the read-only handle on the cached file.\<close>

theorem write_gating_witness:
  "fh info_reader = Some sdata_reader
   \<and> \<not> writable sdata_reader
   \<and> \<not> modified sdata_reader
   \<and> ldb_filecache_write env0 world_reader info_reader ''hello'' 0
       = Inr (0, info_reader, world_reader\<lparr>errno := EBADF\<rparr>)"
proof -
  have h1: "fh info_reader = Some sdata_reader"
    by (simp add: info_reader_def)
  have h2: "\<not> writable sdata_reader" and h3: "\<not> modified sdata_reader"
    by (simp_all add: sdata_reader_def)
  from write_gating [OF h1 h2, of env0 world_reader "''hello''" 0] h1 h2 h3
  show ?thesis by simp
qed

subsection \<open>A replacement whose body does not arrive\<close>

text \<open>
  Claim C9 says that a replacement stages the whole body, then stores the entry, then
  unlinks the old file, so that no stored entry names a file with a partial body. The
  calls are made in this order, but the code does not look at what
  \<open>ne_read_response_to_fd\<close> returns (line 159). Here the entry of \<open>/a.txt\<close> is stale,
  the server answers 200 with a body of 8 bytes, and the connection breaks after 3: the
  new file holds \<open>new\<close>, the entry that is stored names it, and the old file is unlinked.
\<close>

theorem partial_body_is_committed:
  "body (answer_200 3) = ''new body''
   \<and> result_of (ldb_get_fresh_fd (env_200 3) (world_cached 90) ''/c'' ''/a.txt'') = Some 3
   \<and> trace (world_of (ldb_get_fresh_fd (env_200 3) (world_cached 90) ''/c'' ''/a.txt''))
       = [LdbGet ''fc:/a.txt'', RequestCreate ''/a.txt'',
          AddRequestHeader ''If-None-Match'' ''v1'', BeginRequest,
          Mkstemp ''/c/files/fusedav-cache-XXXXXX'' ''/c/files/fusedav-cache-Ab12Cd'' 3,
          ReadResponseToFd 3,
          LdbPut ''fc:/a.txt''
            \<lparr>pd_filename = ''/c/files/fusedav-cache-Ab12Cd'', etag = ''v1'',
               last_server_update = 100\<rparr>,
          Unlink ''/c/files/fusedav-cache-Old001'', RequestDestroy]
   \<and> map_option pd_filename
        (store (world_of (ldb_get_fresh_fd (env_200 3) (world_cached 90) ''/c'' ''/a.txt''))
           ''fc:/a.txt'')
       = Some ''/c/files/fusedav-cache-Ab12Cd''
   \<and> dir (world_of (ldb_get_fresh_fd (env_200 3) (world_cached 90) ''/c'' ''/a.txt''))
        ''/c/files/fusedav-cache-Ab12Cd'' = Some 2
   \<and> idata (world_of (ldb_get_fresh_fd (env_200 3) (world_cached 90) ''/c'' ''/a.txt'')) 2
       = ''new''
   \<and> dir (world_of (ldb_get_fresh_fd (env_200 3) (world_cached 90) ''/c'' ''/a.txt''))
        ''/c/files/fusedav-cache-Old001'' = None"
  by (simp add: ldb_get_fresh_fd_def ldb_filecache_pdata_get_def leveldb_get_def path2key_def
        conditional_get_def full_content_def new_cache_file_def sys_mkstemp_def
        lowest_free_fd_def ne_read_response_to_fd_def write_at_def ldb_filecache_pdata_set_def
        leveldb_put_def sys_unlink_def emit_def time_now_def REFRESH_INTERVAL_def PATH_MAX_def
        result_of_def world_of_def returned_def env0_def world0_def old_entry_def
        world_cached_def answer_200_def env_200_def Let_def upt_rec)

subsection \<open>The result of open\<close>

text \<open>
  Claim C10: once the session and the session data are there and a descriptor \<open>d\<close> has
  been obtained (from \<open>new_cache_file\<close> or from the resolver), open returns 0 exactly
  when \<open>d\<close> is greater than 0; then the handle in the file info holds \<open>d\<close> and nothing is
  freed. Otherwise, and so for descriptor 0, open returns -1, the handle in the file info
  is NULL and the session data is freed.
\<close>

theorem open_succeeds_iff_positive_descriptor:
  assumes "session_ok e" and "malloc_sdata_ok e"
    and "result_of (obtain_descriptor e (snd (session_get e w)) cache_path path replace) = Some d"
  shows "(open_ret (ldb_filecache_open e w cache_path path info replace) = Some 0 \<longleftrightarrow> d > 0)
       \<and> (d > 0 \<longrightarrow>
            map_option fd (open_fh (ldb_filecache_open e w cache_path path info replace)) = Some d
            \<and> open_freed (ldb_filecache_open e w cache_path path info replace) = Some NotFreed)
       \<and> (d \<le> 0 \<longrightarrow>
            open_ret (ldb_filecache_open e w cache_path path info replace) = Some (- 1)
            \<and> open_fh (ldb_filecache_open e w cache_path path info replace) = None
            \<and> open_freed (ldb_filecache_open e w cache_path path info replace) = Some FreedSdata)"
proof (cases replace)
  case True
  obtain r name d' w' where n: "new_cache_file e (emit SessionGet w) cache_path = (r, name, d', w')"
    by (cases "new_cache_file e (emit SessionGet w) cache_path") auto
  have r: "r < 0 \<longleftrightarrow> d' < 0" using n
    by (auto simp: new_cache_file_def Let_def split: prod.splits if_splits)
  have dd: "d' = d" using assms(3) True n
    by (simp add: obtain_descriptor_def session_get_def result_of_def returned_def)
  show ?thesis using assms(1,2) True n r dd
    by (auto simp: ldb_filecache_open_def session_get_def open_finish_def Let_def
         open_ret_def open_fh_def open_freed_def returned_def)
next
  case False
  obtain w1 where g: "ldb_get_fresh_fd e (emit SessionGet w) cache_path path = Some (Inr (d, w1))"
    using assms(3) False
    by (auto simp: obtain_descriptor_def session_get_def result_of_def returned_def
          split: option.splits sum.splits)
  show ?thesis using assms(1,2) False g
    by (auto simp: ldb_filecache_open_def session_get_def open_finish_def Let_def
         open_ret_def open_fh_def open_freed_def returned_def)
qed

text \<open>
  The theorem at a replacing open while standard input is closed: \<open>mkstemp\<close> returns
  descriptor 0, and open fails.
\<close>

theorem open_succeeds_iff_positive_descriptor_witness:
  "session_ok env0 \<and> malloc_sdata_ok env0
   \<and> result_of (obtain_descriptor env0 (snd (session_get env0 world_no_stdin)) ''/c'' ''/a.txt''
                   True) = Some 0
   \<and> open_ret (ldb_filecache_open env0 world_no_stdin ''/c'' ''/a.txt'' info_wronly True)
       = Some (- 1)
   \<and> open_fh (ldb_filecache_open env0 world_no_stdin ''/c'' ''/a.txt'' info_wronly True) = None
   \<and> open_freed (ldb_filecache_open env0 world_no_stdin ''/c'' ''/a.txt'' info_wronly True)
       = Some FreedSdata"
proof -
  have h1: "session_ok env0" and h2: "malloc_sdata_ok env0"
    by (simp_all add: env0_def)
  have h3: "result_of (obtain_descriptor env0 (snd (session_get env0 world_no_stdin)) ''/c''
                         ''/a.txt'' True) = Some 0"
    by (simp add: obtain_descriptor_def session_get_def new_cache_file_def sys_mkstemp_def
          lowest_free_fd_def emit_def PATH_MAX_def result_of_def returned_def env0_def
          world0_def world_no_stdin_def Let_def upt_rec)
  from open_succeeds_iff_positive_descriptor [OF h1 h2 h3, of info_wronly] h1 h2 h3
  show ?thesis by simp
qed

end
